(* ===== verification/Prelude.thy ===== *)
theory Prelude
  imports Complex_Main "HOL-Library.Sublist"
begin

text \<open>
  Shared vocabulary of the development: the names of the model's types, the
  collection of table definitions that table facts unfold, and generic facts on
  lists, filters and sums that several components use (keyword tables are
  association lists scanned in definition order, as Python dicts iterate).
\<close>

named_theorems table_defs "definitions of the constant tables of src/server/main.py"

type_synonym journal = string
type_synonym 'v table = "(string \<times> 'v) list"

subsection \<open>Filtered sums over association lists\<close>

lemma sum_list_map_filter_mono:
  fixes f :: "'a \<Rightarrow> 'b::ordered_comm_monoid_add"
  assumes "\<And>x. x \<in> set xs \<Longrightarrow> 0 \<le> f x"
    and "\<And>x. x \<in> set xs \<Longrightarrow> P x \<Longrightarrow> Q x"
  shows "sum_list (map f (filter P xs)) \<le> sum_list (map f (filter Q xs))"
  using assms
proof (induction xs)
  case Nil
  then show ?case by simp
next
  case (Cons x xs)
  have IH: "sum_list (map f (filter P xs)) \<le> sum_list (map f (filter Q xs))"
    using Cons.prems by (intro Cons.IH) auto
  have fx: "0 \<le> f x" using Cons.prems by simp
  show ?case
    using IH fx Cons.prems(2)[of x] by (auto intro: add_increasing add_mono)
qed

lemma sum_list_map_filter_nonneg:
  fixes f :: "'a \<Rightarrow> 'b::ordered_comm_monoid_add"
  assumes "\<And>x. x \<in> set xs \<Longrightarrow> 0 \<le> f x"
  shows "0 \<le> sum_list (map f (filter P xs))"
  using assms by (induction xs) (auto intro: add_nonneg_nonneg)

subsection \<open>Lists that begin with a given list\<close>

lemma take_append_prefix_take:
  "prefix (take n xs) (take n (xs @ ys))"
  by (simp add: take_append)

lemma distinct_take_of_distinct [intro]:
  "distinct xs \<Longrightarrow> distinct (take n xs)"
  by simp

end
