(* ===== verification/PyBuiltins.thy ===== *)
theory PyBuiltins
  imports Prelude
begin

text \<open>
  The Python built-ins that src/server/main.py applies to journal text, each
  written as the CPython behaviour it has on strings of code points below 256
  (a HOL \<open>char\<close> is read as a Latin-1 code point):
  \<open>str.lower\<close>, the substring test \<open>k in text\<close>, \<open>str.split()\<close> with no
  separator, \<open>str.strip(chars)\<close>, \<open>list(dict.fromkeys(xs))\<close> and \<open>int()\<close>
  of a float. The lemmas are the facts about them that the component proofs
  use: the substring scan is Isabelle's \<open>sublist\<close>, lower-casing is
  idempotent, split tokens and stripped words consist of characters of the
  input, \<open>dict.fromkeys\<close> keeps first occurrences, and \<open>int()\<close> is
  monotone.
\<close>

subsection \<open>str.lower\<close>

text \<open>
  On Latin-1 code points, \<open>str.lower\<close> maps A..Z and the accented capitals
  U+00C0..U+00DE (all but the multiplication sign U+00D7) 32 positions up and
  leaves every other code point alone.
\<close>

definition py_is_upper :: "char \<Rightarrow> bool" where
  "py_is_upper c \<longleftrightarrow>
     (let n = (of_char c :: nat) in (65 \<le> n \<and> n \<le> 90) \<or> (192 \<le> n \<and> n \<le> 222 \<and> n \<noteq> 215))"

definition py_lower_char :: "char \<Rightarrow> char" where
  "py_lower_char c = (if py_is_upper c then char_of ((of_char c :: nat) + 32) else c)"

definition py_lower :: "string \<Rightarrow> string" where
  "py_lower s = map py_lower_char s"

subsection \<open>The substring test \<open>k in text\<close>\<close>

fun py_startswith :: "string \<Rightarrow> string \<Rightarrow> bool" where
  "py_startswith [] _ = True"
| "py_startswith (_ # _) [] = False"
| "py_startswith (x # xs) (y # ys) = (x = y \<and> py_startswith xs ys)"

fun py_in :: "string \<Rightarrow> string \<Rightarrow> bool" where
  "py_in k [] = (k = [])"
| "py_in k (c # cs) = (py_startswith k (c # cs) \<or> py_in k cs)"

subsection \<open>str.split() and str.strip(chars)\<close>

text \<open>
  \<open>str.isspace\<close> on Latin-1: the C0 separators 9..13 and 28..32, NEL (133)
  and NO-BREAK SPACE (160). \<open>str.split()\<close> with no argument cuts at runs of
  such characters and drops empty pieces; the loop below carries the piece
  being read.
\<close>

definition py_isspace :: "char \<Rightarrow> bool" where
  "py_isspace c \<longleftrightarrow>
     (let n = (of_char c :: nat) in (9 \<le> n \<and> n \<le> 13) \<or> (28 \<le> n \<and> n \<le> 32) \<or> n = 133 \<or> n = 160)"

fun split_acc :: "string \<Rightarrow> string \<Rightarrow> string list" where
  "split_acc cur [] = (if cur = [] then [] else [cur])"
| "split_acc cur (c # cs) =
     (if py_isspace c then (if cur = [] then split_acc [] cs else cur # split_acc [] cs)
      else split_acc (cur @ [c]) cs)"

definition py_split :: "string \<Rightarrow> string list" where
  "py_split s = split_acc [] s"

definition py_strip :: "char list \<Rightarrow> string \<Rightarrow> string" where
  "py_strip cs s = rev (dropWhile (\<lambda>c. c \<in> set cs) (rev (dropWhile (\<lambda>c. c \<in> set cs) s)))"

subsection \<open>list(dict.fromkeys(xs))\<close>

text \<open>
  Building a dict from the keys inserts each key once, at its first
  occurrence; listing it gives the keys in insertion order.
\<close>

fun fromkeys_acc :: "'a list \<Rightarrow> 'a list \<Rightarrow> 'a list" where
  "fromkeys_acc seen [] = seen"
| "fromkeys_acc seen (x # xs) = fromkeys_acc (if x \<in> set seen then seen else seen @ [x]) xs"

definition py_dict_fromkeys :: "'a list \<Rightarrow> 'a list" where
  "py_dict_fromkeys xs = fromkeys_acc [] xs"

subsection \<open>int() of a float\<close>

definition py_int :: "real \<Rightarrow> int" where
  "py_int x = (if 0 \<le> x then \<lfloor>x\<rfloor> else \<lceil>x\<rceil>)"


subsection \<open>Facts about the built-ins\<close>

lemma py_startswith_prefix [simp]: "py_startswith k s \<longleftrightarrow> prefix k s"
  by (induction k s rule: py_startswith.induct) auto

lemma py_in_iff_sublist: "py_in k s \<longleftrightarrow> sublist k s"
  by (induction s) (auto simp: sublist_Cons_right)

lemma py_is_upper_lowered:
  assumes "py_is_upper c"
  shows "\<not> py_is_upper (char_of ((of_char c :: nat) + 32))"
proof -
  have "(of_char c :: nat) + 32 < 256" using assms by (auto simp: py_is_upper_def Let_def)
  then have "(of_char (char_of ((of_char c :: nat) + 32)) :: nat) = of_char c + 32" by simp
  with assms show ?thesis by (auto simp: py_is_upper_def Let_def)
qed

lemma py_lower_char_idem [simp]: "py_lower_char (py_lower_char c) = py_lower_char c"
  by (simp add: py_lower_char_def py_is_upper_lowered)

lemma py_lower_char_not_upper: "\<not> py_is_upper (py_lower_char c)"
  by (simp add: py_lower_char_def py_is_upper_lowered)

lemma py_lower_char_fixed_iff: "py_lower_char c = c \<longleftrightarrow> \<not> py_is_upper c"
proof
  assume "py_lower_char c = c"
  then show "\<not> py_is_upper c" using py_lower_char_not_upper[of c] by simp
qed (simp add: py_lower_char_def)

lemma py_lower_idem: "py_lower (py_lower s) = py_lower s"
  by (simp add: py_lower_def)

lemma py_lower_fixed_iff: "py_lower s = s \<longleftrightarrow> (\<forall>c \<in> set s. \<not> py_is_upper c)"
  by (induction s) (auto simp: py_lower_def py_lower_char_fixed_iff)

lemma concat_split_acc:
  "concat (split_acc cur s) = cur @ filter (\<lambda>c. \<not> py_isspace c) s"
  by (induction cur s rule: split_acc.induct) auto

lemma set_concat_py_split: "set (concat (py_split s)) \<subseteq> set s"
  by (auto simp: py_split_def concat_split_acc)

lemma py_strip_sublist: "sublist (py_strip cs s) s"
proof -
  let ?P = "\<lambda>c. c \<in> set cs"
  have "suffix (dropWhile ?P s) s" by (simp add: suffix_dropWhile)
  moreover have "prefix (rev (dropWhile ?P (rev (dropWhile ?P s)))) (dropWhile ?P s)"
    by (metis prefix_order.eq_iff rev_rev_ident suffix_dropWhile suffix_to_prefix)
  ultimately show ?thesis unfolding py_strip_def
    by (meson prefix_imp_sublist sublist_order.dual_order.trans suffix_imp_sublist)
qed

lemma fromkeys_acc_snoc:
  "fromkeys_acc seen (xs @ [x]) = (let r = fromkeys_acc seen xs in if x \<in> set r then r else r @ [x])"
  by (induction xs arbitrary: seen) auto

lemma set_fromkeys_acc: "set (fromkeys_acc seen xs) = set seen \<union> set xs"
  by (induction xs arbitrary: seen) auto

lemma py_dict_fromkeys_rev_remdups: "py_dict_fromkeys xs = rev (remdups (rev xs))"
proof (induction xs rule: rev_induct)
  case Nil
  then show ?case by (simp add: py_dict_fromkeys_def)
next
  case (snoc x xs)
  then show ?case
    by (simp add: py_dict_fromkeys_def fromkeys_acc_snoc set_fromkeys_acc Let_def)
qed

lemma py_int_mono: "x \<le> y \<Longrightarrow> py_int x \<le> py_int y"
  by (auto simp: py_int_def intro: floor_mono ceiling_mono order_trans[of _ 0]
      simp add: ceiling_le_zero)

lemma fromkeys_acc_append: "fromkeys_acc seen (xs @ ys) = fromkeys_acc (fromkeys_acc seen xs) ys"
  by (induction xs arbitrary: seen) auto

lemma fromkeys_acc_seen:
  "fromkeys_acc seen ys = seen @ filter (\<lambda>y. y \<notin> set seen) (py_dict_fromkeys ys)"
proof (induction ys rule: rev_induct)
  case Nil
  then show ?case by (simp add: py_dict_fromkeys_def)
next
  case (snoc y ys)
  then show ?case
    by (auto simp: py_dict_fromkeys_def fromkeys_acc_snoc set_fromkeys_acc Let_def)
qed

lemma fromkeys_acc_distinct: "distinct (seen @ xs) \<Longrightarrow> fromkeys_acc seen xs = seen @ xs"
  by (induction xs arbitrary: seen) auto

lemma py_dict_fromkeys_append_distinct:
  "distinct xs \<Longrightarrow> py_dict_fromkeys (xs @ ys) = xs @ filter (\<lambda>y. y \<notin> set xs) (py_dict_fromkeys ys)"
proof -
  assume "distinct xs"
  then have "py_dict_fromkeys (xs @ ys) = fromkeys_acc xs ys"
    using fromkeys_acc_distinct[of "[]" xs] by (simp add: py_dict_fromkeys_def fromkeys_acc_append)
  then show ?thesis by (simp only: fromkeys_acc_seen)
qed

lemma distinct_py_dict_fromkeys [simp]: "distinct (py_dict_fromkeys xs)"
  by (simp add: py_dict_fromkeys_rev_remdups)

lemma set_py_dict_fromkeys [simp]: "set (py_dict_fromkeys xs) = set xs"
  by (simp add: py_dict_fromkeys_rev_remdups)

lemma py_lower_Nil [simp]: "py_lower [] = []"
  and py_lower_Cons [simp]: "py_lower (c # s) = py_lower_char c # py_lower s"
  and py_lower_append [simp]: "py_lower (s @ t) = py_lower s @ py_lower t"
  and length_py_lower [simp]: "length (py_lower s) = length s"
  by (simp_all add: py_lower_def)

lemma py_in_append_right: "py_in k s \<Longrightarrow> py_in k (s @ t)"
  and py_in_append_left: "py_in k t \<Longrightarrow> py_in k (s @ t)"
  by (auto simp: py_in_iff_sublist intro: sublist_order.order_trans[OF _ sublist_append_rightI]
      sublist_order.order_trans[OF _ sublist_append_leftI])

end
