(* ===== verification/Tables.thy ===== *)
theory Tables
  imports PyBuiltins
begin

text \<open>
  The constant reference data of src/server/main.py, as association lists in
  the order of their dict literals (Python iterates a dict in insertion order,
  and the code scans them in that order): the stress-keyword weights
  \<open>STRESS_KEYWORDS\<close> (module level), the crisis phrases of \<open>analyze\<close>,
  and the keyword-to-task map and emotion fallback bank of
  \<open>generate_tasks\<close>. The lemmas record the facts of the tables that the
  components rely on: distinct keys, positive weights, lower-case keys, and
  keyword tasks that never coincide with a fallback task.
\<close>

definition STRESS_KEYWORDS :: "int table" where
  "STRESS_KEYWORDS =
     [(''stress'', 12), (''stressed'', 12), (''anxious'', 15), (''anxiety'', 15),
      (''worry'', 10), (''worried'', 10), (''panic'', 10), (''fear'', 10),
      (''sad'', 8), (''tired'', 8), (''overwhelmed'', 12), (''depressed'', 20),
      (''angry'', 12), (''frustrated'', 10), (''lonely'', 12)]"

definition crisis_words :: "string list" where
  "crisis_words = [''suicide'', ''kill myself'', ''self harm'', ''die'', ''end my life'']"

definition keywords_map :: "string table" where
  "keywords_map =
     [(''stress'', ''Do 5 minutes of deep breathing''),
      (''stressed'', ''Do 5 minutes of deep breathing''),
      (''anxiety'', ''Practice slow breathing for 3 minutes''),
      (''anxious'', ''Practice slow breathing for 3 minutes''),
      (''worried'', ''Write down your worries and one solution''),
      (''tired'', ''Take a 10-minute rest and drink water''),
      (''fear'', ''Ground yourself and focus on your breath''),
      (''overwhelmed'', ''Break your work into 3 smaller tasks''),
      (''sad'', ''Write 2 things that made you smile''),
      (''lonely'', ''Call a friend for 5 minutes''),
      (''angry'', ''Take a brisk walk for 5 minutes''),
      (''frustrated'', ''Take a brisk walk for 5 minutes''),
      (''depressed'', ''Write one positive affirmation''),
      (''happy'', ''Celebrate a small win today''),
      (''motivated'', ''Plan one productive task today'')]"

text \<open>
  The keys of \<open>emotion_tasks\<close> are the three strings that
  \<open>infer_simple_emotion\<close> returns; they are a datatype here, so the dict
  lookup \<open>emotion_tasks[emotion_type]\<close> is total as it is in the code.
\<close>

datatype emotion_type = Positive_type | Negative_type | Neutral_type

fun emotion_tasks :: "emotion_type \<Rightarrow> string list" where
  "emotion_tasks Positive_type =
     [''Write 3 things you are grateful for'', ''Do a 2-minute smiling exercise'',
      ''Message someone you care about'']"
| "emotion_tasks Negative_type =
     [''Do a 2-minute relaxation exercise'', ''Drink a glass of water slowly'',
      ''Write one kind sentence to yourself'']"
| "emotion_tasks Neutral_type =
     [''Write one goal for today'', ''Take 10 deep breaths'', ''Stretch your body for 1 minute'']"

declare STRESS_KEYWORDS_def [table_defs] crisis_words_def [table_defs] keywords_map_def [table_defs]

subsection \<open>Facts of the tables\<close>

lemma distinct_STRESS_KEYWORDS_keys: "distinct (map fst STRESS_KEYWORDS)"
  by (simp add: table_defs)

lemma STRESS_KEYWORDS_weights_pos: "(k, v) \<in> set STRESS_KEYWORDS \<Longrightarrow> 0 < v"
  by (auto simp: table_defs)

lemma STRESS_KEYWORDS_keys_lower: "k \<in> fst ` set STRESS_KEYWORDS \<Longrightarrow> py_lower k = k"
  by (auto simp: table_defs py_lower_char_def py_is_upper_def)

lemma distinct_keywords_map_keys: "distinct (map fst keywords_map)"
  by (simp add: table_defs)

lemma emotion_tasks_distinct: "distinct (emotion_tasks b)"
  by (cases b) simp_all

lemma emotion_tasks_length: "length (emotion_tasks b) = 3"
  by (cases b) simp_all

lemma keyword_task_not_fallback:
  "t \<in> snd ` set keywords_map \<Longrightarrow> t \<notin> set (emotion_tasks b)"
  by (cases b) (auto simp: table_defs)

end
