(* ===== verification/Stress.thy ===== *)
theory Stress
  imports Tables
begin

text \<open>
  \<open>compute_stress\<close> of src/server/main.py (lines 33--54): a base level from
  the signed sentiment score, the capped sum of the weights of the stress
  keywords present in the lower-cased text, a three-way branch on the
  score's polarity, truncation towards zero and a clamp to 0..100. Python
  floats are exact reals here (no binary rounding). The lemmas show the clamp,
  the set-sum reading of the keyword hits, that stress never rises when the
  sentiment improves, and how keyword hits move the level in each branch.
\<close>

definition raw_hits :: "string \<Rightarrow> int" where
  "raw_hits text = sum_list (map snd (filter (\<lambda>(key, val). py_in key text) STRESS_KEYWORDS))"

definition stress_branch :: "real \<Rightarrow> int \<Rightarrow> real" where
  "stress_branch sentiment_score keyword_contribution =
     (let base_stress = 50 - sentiment_score * 35 in
      if sentiment_score < -0.1 then base_stress + of_int keyword_contribution
      else if sentiment_score > 0.1 then base_stress - of_int keyword_contribution / 2
      else base_stress + of_int keyword_contribution / 2)"

definition compute_stress :: "string \<Rightarrow> real \<Rightarrow> int" where
  "compute_stress text0 sentiment_score =
     (let text = py_lower text0;
          keyword_contribution = min (raw_hits text) 30;
          stress = stress_branch sentiment_score keyword_contribution
      in max 0 (min 100 (py_int stress)))"


subsection \<open>Keyword hits\<close>

lemma raw_hits_nonneg: "0 \<le> raw_hits t"
  unfolding raw_hits_def
  by (rule sum_list_map_filter_nonneg) (auto dest: STRESS_KEYWORDS_weights_pos)

lemma raw_hits_mono:
  assumes "\<And>k. k \<in> fst ` set STRESS_KEYWORDS \<Longrightarrow> py_in k t1 \<Longrightarrow> py_in k t2"
  shows "raw_hits t1 \<le> raw_hits t2"
  unfolding raw_hits_def
  by (rule sum_list_map_filter_mono)
    (auto dest: STRESS_KEYWORDS_weights_pos intro: assms[OF rev_image_eqI])

lemma keyword_contribution_bounds: "0 \<le> min (raw_hits t) 30 \<and> min (raw_hits t) 30 \<le> 30"
  using raw_hits_nonneg[of t] by simp

subsection \<open>The branch on polarity\<close>

lemma stress_branch_antitone_score:
  assumes "s1 \<le> s2" and "0 \<le> kc"
  shows "stress_branch s2 kc \<le> stress_branch s1 kc"
  using assms by (auto simp: stress_branch_def Let_def)

lemma stress_branch_mono_kc_neg:
  "s < -0.1 \<Longrightarrow> kc1 \<le> kc2 \<Longrightarrow> stress_branch s kc1 \<le> stress_branch s kc2"
  by (simp add: stress_branch_def Let_def)

lemma stress_branch_antitone_kc_pos:
  "s > 0.1 \<Longrightarrow> kc1 \<le> kc2 \<Longrightarrow> stress_branch s kc2 \<le> stress_branch s kc1"
  by (simp add: stress_branch_def Let_def)

lemma clamp_py_int_mono:
  "x \<le> y \<Longrightarrow> max 0 (min 100 (py_int x)) \<le> max 0 (min (100::int) (py_int y))"
  using py_int_mono[of x y] by simp

lemma compute_stress_eq:
  "compute_stress t s = max 0 (min 100 (py_int (stress_branch s (min (raw_hits (py_lower t)) 30))))"
  by (simp add: compute_stress_def Let_def)

subsection \<open>Properties of compute_stress\<close>

lemma raw_hits_no_keywords:
  "\<forall>k \<in> fst ` set STRESS_KEYWORDS. \<not> py_in k t \<Longrightarrow> raw_hits t = 0"
  unfolding raw_hits_def by (subst filter_False) auto

text \<open>C2: For every text and every sentiment score, even one outside [-1, 1], the stress level that compute_stress returns lies in 0..100.\<close>

lemma compute_stress_bounds: "0 \<le> compute_stress t s \<and> compute_stress t s \<le> 100"
  by (simp add: compute_stress_eq)

text \<open>C8: For a fixed text, a higher sentiment score never gives a higher stress level: compute_stress is antitone in the score across all three polarity branches, including at the thresholds -0.1 and 0.1.\<close>

lemma compute_stress_antitone:
  assumes "s1 \<le> s2"
  shows "compute_stress t s2 \<le> compute_stress t s1"
  unfolding compute_stress_eq
  using assms keyword_contribution_bounds
  by (intro clamp_py_int_mono stress_branch_antitone_score) auto

lemma compute_stress_antitone_witness:
  "(-0.9::real) \<le> 0.95 \<and> compute_stress ''I am stressed'' 0.95 \<le> compute_stress ''I am stressed'' (-0.9)"
  using compute_stress_antitone[of "-0.9" "0.95" "''I am stressed''"] by simp

text \<open>C9: With negative sentiment (score below -0.1), a text whose lower-cased form contains every stress keyword that another text contains gets at least the other text's stress level: keyword hits only raise stress.\<close>

lemma compute_stress_keywords_raise_negative:
  assumes "s < -0.1"
    and "\<forall>k \<in> fst ` set STRESS_KEYWORDS. py_in k (py_lower t1) \<longrightarrow> py_in k (py_lower t2)"
  shows "compute_stress t1 s \<le> compute_stress t2 s"
proof -
  have "raw_hits (py_lower t1) \<le> raw_hits (py_lower t2)"
    using assms(2) by (intro raw_hits_mono) auto
  then have "min (raw_hits (py_lower t1)) 30 \<le> min (raw_hits (py_lower t2)) 30" by simp
  then show ?thesis
    unfolding compute_stress_eq by (intro clamp_py_int_mono stress_branch_mono_kc_neg assms(1))
qed

lemma compute_stress_keywords_raise_negative_witness:
  "compute_stress ''a calm day'' (-0.5) \<le> compute_stress ''a stressed day'' (-0.5)"
proof -
  have h: "\<forall>k \<in> fst ` set STRESS_KEYWORDS. py_in k (py_lower ''a calm day'') \<longrightarrow> py_in k (py_lower ''a stressed day'')"
    by code_simp
  show ?thesis using h compute_stress_keywords_raise_negative[of "-0.5" "''a calm day''" "''a stressed day''"] by simp
qed

text \<open>C10: With positive sentiment (score above 0.1), keyword hits only lower the stress level: a text containing more stress keywords never scores higher than one containing fewer. The witness shows 'a great but stressed day' at 6 against 18 for 'a great day'.\<close>

lemma compute_stress_keywords_lower_positive:
  assumes "s > 0.1"
    and "\<forall>k \<in> fst ` set STRESS_KEYWORDS. py_in k (py_lower t1) \<longrightarrow> py_in k (py_lower t2)"
  shows "compute_stress t2 s \<le> compute_stress t1 s"
proof -
  have "raw_hits (py_lower t1) \<le> raw_hits (py_lower t2)"
    using assms(2) by (intro raw_hits_mono) auto
  then have "min (raw_hits (py_lower t1)) 30 \<le> min (raw_hits (py_lower t2)) 30" by simp
  then show ?thesis
    unfolding compute_stress_eq by (intro clamp_py_int_mono stress_branch_antitone_kc_pos assms(1))
qed

lemma compute_stress_keywords_lower_positive_witness:
  "compute_stress ''a great but stressed day'' 0.9 \<le> compute_stress ''a great day'' 0.9
   \<and> compute_stress ''a great but stressed day'' 0.9 = 6 \<and> compute_stress ''a great day'' 0.9 = 18"
proof -
  have h: "\<forall>k \<in> fst ` set STRESS_KEYWORDS. py_in k (py_lower ''a great day'') \<longrightarrow> py_in k (py_lower ''a great but stressed day'')"
    by code_simp
  have v1: "compute_stress ''a great but stressed day'' 0.9 = 6" by code_simp
  have v2: "compute_stress ''a great day'' 0.9 = 18" by code_simp
  show ?thesis using h v1 v2
      compute_stress_keywords_lower_positive[of "0.9" "''a great day''" "''a great but stressed day''"]
    by simp
qed

text \<open>The two stress examples of section 8 of the specification, evaluated: 'I feel so stressed and anxious about work' at score -0.9 gives 100 (111.5 clamped), and 'I am so happy and grateful today' at 0.95 gives 16 (16.75 truncated).\<close>

lemma compute_stress_spec_examples:
  "compute_stress ''I feel so stressed and anxious about work'' (-0.9) = 100
   \<and> compute_stress ''I am so happy and grateful today'' 0.95 = 16"
  by code_simp

text \<open>C11: For a text with no stress keyword and a score in [-1, 1], the stress level is the truncated base level 50 - 35 * score, so it lies in 15..85.\<close>

lemma compute_stress_no_keywords_range:
  assumes "\<forall>k \<in> fst ` set STRESS_KEYWORDS. \<not> py_in k (py_lower t)"
    and "-1 \<le> s" and "s \<le> 1"
  shows "15 \<le> compute_stress t s \<and> compute_stress t s \<le> 85"
proof -
  have "raw_hits (py_lower t) = 0" using assms(1) by (rule raw_hits_no_keywords)
  then have eq: "compute_stress t s = max 0 (min 100 (py_int (50 - s * 35)))"
    by (simp add: compute_stress_eq stress_branch_def Let_def)
  have "15 \<le> 50 - s * 35" "50 - s * 35 \<le> 85" using assms(2,3) by linarith+
  then have "15 \<le> py_int (50 - s * 35) \<and> py_int (50 - s * 35) \<le> 85"
    by (auto simp: py_int_def le_floor_iff floor_le_iff)
  then show ?thesis unfolding eq by simp
qed

lemma compute_stress_no_keywords_range_witness:
  "15 \<le> compute_stress ''I am so happy and grateful today'' 0.95
   \<and> compute_stress ''I am so happy and grateful today'' 0.95 \<le> 85"
proof -
  have h: "\<forall>k \<in> fst ` set STRESS_KEYWORDS. \<not> py_in k (py_lower ''I am so happy and grateful today'')"
    by code_simp
  show ?thesis using h compute_stress_no_keywords_range[of "''I am so happy and grateful today''" "0.95"]
    by simp
qed

end
