(* ===== verification/Sentiment.thy ===== *)
theory Sentiment
  imports Prelude
begin

text \<open>
  The shape of the external classifier's answer and the normaliser that both
  endpoints apply to it (src/server/main.py lines 97 and 135): the first
  result's \<open>score\<close> is kept when its \<open>label\<close> is exactly
  \<open>"POSITIVE"\<close> and negated otherwise, so any other label string counts as
  negative. The classifier itself is outside the development; its answer is a
  value of the record below.
\<close>

record sentiment_result =
  label :: string
  score :: real

definition sentiment_score :: "sentiment_result \<Rightarrow> real" where
  "sentiment_score res = (if label res = ''POSITIVE'' then score res else - score res)"


subsection \<open>Properties of the normaliser\<close>

text \<open>C22: For a classifier answer whose confidence lies in [0, 1], the normalised sentiment score lies in [-1, 1] and its magnitude is the confidence.\<close>

lemma sentiment_score_range:
  assumes "0 \<le> score res" and "score res \<le> 1"
  shows "-1 \<le> sentiment_score res \<and> sentiment_score res \<le> 1 \<and> \<bar>sentiment_score res\<bar> = score res"
  using assms by (simp add: sentiment_score_def)

lemma sentiment_score_range_witness:
  "sentiment_score \<lparr>label = ''NEGATIVE'', score = 0.9\<rparr> = -0.9
   \<and> -1 \<le> sentiment_score \<lparr>label = ''NEGATIVE'', score = 0.9\<rparr>"
  using sentiment_score_range[of "\<lparr>label = ''NEGATIVE'', score = 0.9\<rparr>"]
  by (simp add: sentiment_score_def)

text \<open>C24: Any label other than the exact string POSITIVE (for instance LABEL_1 of another model) makes the score negative: the normaliser does not check for NEGATIVE.\<close>

lemma sentiment_score_other_label:
  "label res \<noteq> ''POSITIVE'' \<Longrightarrow> sentiment_score res = - score res"
  by (simp add: sentiment_score_def)

lemma sentiment_score_other_label_witness:
  "sentiment_score \<lparr>label = ''LABEL_1'', score = 0.9\<rparr> = -0.9"
  using sentiment_score_other_label[of "\<lparr>label = ''LABEL_1'', score = 0.9\<rparr>"] by simp

end
