(* ===== verification/Emotion.thy ===== *)
theory Emotion
  imports PyBuiltins
begin

text \<open>
  \<open>infer_emotion\<close> of src/server/main.py (lines 60--75): phrase rules on the
  lower-cased text, checked in order, before two thresholds on the score. The
  six labels the code returns as strings are a datatype here, with their JSON
  spelling in \<open>emotion_name\<close>; \<open>Critical\<close> is the label only the crisis
  response of \<open>analyze\<close> carries. The lemmas give the precedence of the
  phrase rules, the exact condition for each score-driven label and the
  insensitivity of the classifier to letter case.
\<close>

datatype emotion = Critical | Anxious | Angry | Sad | Happy | Neutral

fun emotion_name :: "emotion \<Rightarrow> string" where
  "emotion_name Critical = ''critical''"
| "emotion_name Anxious = ''anxious''"
| "emotion_name Angry = ''angry''"
| "emotion_name Sad = ''sad''"
| "emotion_name Happy = ''happy''"
| "emotion_name Neutral = ''neutral''"

definition infer_emotion :: "real \<Rightarrow> string \<Rightarrow> emotion" where
  "infer_emotion score text0 =
     (let text = py_lower text0 in
      if py_in ''anxiety'' text \<or> py_in ''anxious'' text then Anxious
      else if py_in ''angry'' text \<or> py_in ''frustrated'' text then Angry
      else if py_in ''sad'' text \<or> py_in ''depress'' text then Sad
      else if score > 0.65 then Happy
      else if score < -0.65 then Sad
      else Neutral)"


lemma infer_emotion_not_Critical [simp]: "infer_emotion s t \<noteq> Critical"
  by (simp add: infer_emotion_def Let_def)

subsection \<open>Properties of infer_emotion\<close>

text \<open>C3: A text whose lower-cased form contains 'anxiety' or 'anxious' is labelled anxious whatever the sentiment score: the phrase rule beats the score rules (the witness pairs 'anxious' with score 0.99).\<close>

lemma infer_emotion_phrase_precedence:
  assumes "py_in ''anxiety'' (py_lower t) \<or> py_in ''anxious'' (py_lower t)"
  shows "infer_emotion s t = Anxious"
  using assms by (simp add: infer_emotion_def)

lemma infer_emotion_phrase_precedence_witness:
  "infer_emotion 0.99 ''I am Anxious but so happy'' = Anxious"
proof -
  have "py_in ''anxious'' (py_lower ''I am Anxious but so happy'')" by code_simp
  then show ?thesis using infer_emotion_phrase_precedence[of "''I am Anxious but so happy''" "0.99"]
    by blast
qed

text \<open>C12: The label is happy exactly when the score exceeds 0.65 and the lower-cased text contains none of the six emotion phrases.\<close>

lemma infer_emotion_happy_iff:
  "infer_emotion s t = Happy \<longleftrightarrow>
     0.65 < s \<and> \<not> (\<exists>w \<in> set [''anxiety'', ''anxious'', ''angry'', ''frustrated'', ''sad'', ''depress''].
                       py_in w (py_lower t))"
  by (auto simp: infer_emotion_def Let_def)

text \<open>C13: The label is sad exactly when the text contains none of the anxious or angry phrases and either contains 'sad' or 'depress' or has a score below -0.65.\<close>

lemma infer_emotion_sad_iff:
  "infer_emotion s t = Sad \<longleftrightarrow>
     \<not> (\<exists>w \<in> set [''anxiety'', ''anxious'', ''angry'', ''frustrated'']. py_in w (py_lower t))
     \<and> (py_in ''sad'' (py_lower t) \<or> py_in ''depress'' (py_lower t) \<or> s < -0.65)"
  by (auto simp: infer_emotion_def Let_def)

text \<open>C14: infer_emotion gives the same label for a text and its lower-cased form.\<close>

lemma infer_emotion_case_insensitive: "infer_emotion s (py_lower t) = infer_emotion s t"
  by (simp add: infer_emotion_def py_lower_idem)

text \<open>C23: The label is neutral exactly when the score lies in [-0.65, 0.65] and the lower-cased text contains none of the six emotion phrases.\<close>

lemma infer_emotion_neutral_iff:
  "infer_emotion s t = Neutral \<longleftrightarrow>
     -0.65 \<le> s \<and> s \<le> 0.65
     \<and> \<not> (\<exists>w \<in> set [''anxiety'', ''anxious'', ''angry'', ''frustrated'', ''sad'', ''depress''].
              py_in w (py_lower t))"
  by (auto simp: infer_emotion_def Let_def)

end
