(* ===== verification/Keywords.thy ===== *)
theory Keywords
  imports Tables
begin

text \<open>
  The keyword list of the \<open>analyze\<close> response (src/server/main.py lines
  105--116). On the lower-cased text: the stress keywords present, in the
  order of \<open>STRESS_KEYWORDS\<close>, then every whitespace-separated token longer
  than four characters, stripped of surrounding punctuation after the length
  test; the concatenation is deduplicated keeping first occurrences
  (\<open>dict.fromkeys\<close>) and cut to five. The lemmas show the list is short and
  duplicate-free, that the matched stress keywords come first, and two ways
  the code departs from the specification's wording.
\<close>

definition strip_chars :: "char list" where
  "strip_chars = ''.,!?;:()[]'' @ [CHR 0x22, CHR 0x27]"

definition general_words :: "string \<Rightarrow> string list" where
  "general_words text = map (py_strip strip_chars) (filter (\<lambda>w. length w > 4) (py_split text))"

definition stress_keywords_in :: "string \<Rightarrow> string list" where
  "stress_keywords_in text = map fst (filter (\<lambda>(k, v). py_in k text) STRESS_KEYWORDS)"

definition extract_keywords :: "string \<Rightarrow> string list" where
  "extract_keywords text = take 5 (py_dict_fromkeys (stress_keywords_in text @ general_words text))"


subsection \<open>Facts of the two keyword sources\<close>

lemma distinct_stress_keywords_in: "distinct (stress_keywords_in t)"
  unfolding stress_keywords_in_def
  using distinct_STRESS_KEYWORDS_keys by (simp add: distinct_map_filter)

lemma stress_keywords_in_keys: "k \<in> set (stress_keywords_in t) \<Longrightarrow> k \<in> fst ` set STRESS_KEYWORDS"
  by (auto simp: stress_keywords_in_def)

lemma general_words_chars:
  assumes "w \<in> set (general_words t)"
  shows "set w \<subseteq> set t"
proof -
  obtain v where v: "v \<in> set (py_split t)" and w: "w = py_strip strip_chars v"
    using assms by (auto simp: general_words_def)
  have "set w \<subseteq> set v" using py_strip_sublist[of strip_chars v] w
    by (metis set_mono_sublist)
  also have "set v \<subseteq> set (concat (py_split t))" using v by auto
  also have "\<dots> \<subseteq> set t" by (rule set_concat_py_split)
  finally show ?thesis .
qed

lemma extract_keywords_eq:
  "extract_keywords t =
     take 5 (stress_keywords_in t @ filter (\<lambda>w. w \<notin> set (stress_keywords_in t)) (py_dict_fromkeys (general_words t)))"
  unfolding extract_keywords_def
  by (simp add: py_dict_fromkeys_append_distinct distinct_stress_keywords_in)

subsection \<open>Properties of the keyword list\<close>

lemma lower_text_chars_fixed:
  assumes "set w \<subseteq> set (py_lower t)"
  shows "py_lower w = w"
proof -
  have "\<forall>c \<in> set w. \<not> py_is_upper c"
    using assms by (auto simp: py_lower_def py_lower_char_not_upper)
  then show ?thesis by (simp add: py_lower_fixed_iff)
qed

text \<open>C4: The keyword list of an analysis has at most five entries and no exact duplicates, for every text.\<close>

lemma extract_keywords_bounded_distinct:
  "length (extract_keywords t) \<le> 5 \<and> distinct (extract_keywords t)"
  by (simp add: extract_keywords_def)

text \<open>C15: The stress keywords found in the text, in the order of STRESS_KEYWORDS, open the keyword list (as many as fit in five), and every keyword is either such a stress keyword or one of the stripped general words.\<close>

lemma extract_keywords_stress_first:
  "prefix (take 5 (stress_keywords_in t)) (extract_keywords t)
   \<and> set (extract_keywords t) \<subseteq> set (stress_keywords_in t) \<union> set (general_words t)"
proof
  show "prefix (take 5 (stress_keywords_in t)) (extract_keywords t)"
    unfolding extract_keywords_eq by (rule take_append_prefix_take)
  show "set (extract_keywords t) \<subseteq> set (stress_keywords_in t) \<union> set (general_words t)"
    unfolding extract_keywords_def by (auto dest: in_set_takeD)
qed

text \<open>C16: Applied to lower-cased text, as analyze applies it, every keyword is already lower case: the general words are cut from the lower-cased text, so the case-sensitive deduplication the specification worries about never meets two spellings of one word.\<close>

lemma extract_keywords_lowercase:
  "map py_lower (extract_keywords (py_lower t)) = extract_keywords (py_lower t)"
proof (rule map_idI)
  fix k assume k: "k \<in> set (extract_keywords (py_lower t))"
  then have "k \<in> set (stress_keywords_in (py_lower t)) \<or> k \<in> set (general_words (py_lower t))"
    unfolding extract_keywords_def by (auto dest: in_set_takeD)
  then show "py_lower k = k"
  proof
    assume "k \<in> set (stress_keywords_in (py_lower t))"
    then show ?thesis by (intro STRESS_KEYWORDS_keys_lower stress_keywords_in_keys)
  next
    assume "k \<in> set (general_words (py_lower t))"
    then show ?thesis by (intro lower_text_chars_fixed general_words_chars)
  qed
qed

text \<open>Finding: the length test on general words runs before punctuation is stripped, so the token '(calm)' yields the four-letter keyword 'calm' and a token of five double quotes yields the empty string as a keyword.\<close>

lemma extract_keywords_length_before_strip:
  "extract_keywords (''(calm) '' @ replicate 5 (CHR 0x22)) = [''calm'', '''']"
  by code_simp

end
