(* ===== verification/Tasks.thy ===== *)
theory Tasks
  imports Tables
begin

text \<open>
  The task selection of \<open>generate_tasks\<close> (src/server/main.py lines
  137--201), on the lower-cased text and the normalised score: the keys of
  \<open>keywords_map\<close> present in the text, in table order; a loop that appends
  the mapped task of each while fewer than two tasks are held (duplicates
  included: the check is on the count only); the score bucket of
  \<open>infer_simple_emotion\<close>; a loop over that bucket's three fallback tasks
  that stops at three tasks and skips a task already held; and the cut to
  three. The lemmas give the exact length, the prefix of keyword tasks,
  distinctness of what the fallback loop adds, and a text that makes the
  response repeat a task.
\<close>

definition infer_simple_emotion :: "real \<Rightarrow> emotion_type" where
  "infer_simple_emotion score =
     (if score > 0.4 then Positive_type else if score < -0.4 then Negative_type else Neutral_type)"

definition detected_keywords :: "string \<Rightarrow> string list" where
  "detected_keywords text = map fst (filter (\<lambda>(k, task). py_in k text) keywords_map)"

text \<open>
  \<open>keywords_map[k]\<close> is a dict lookup that raises KeyError on a missing key;
  the loop only looks up keys taken from the map itself
  (\<open>detected_keywords_in_map\<close> below), so the lookup is written as
  \<open>the (map_of keywords_map k)\<close>.
\<close>

fun add_keyword_tasks :: "string list \<Rightarrow> string list \<Rightarrow> string list" where
  "add_keyword_tasks [] tasks = tasks"
| "add_keyword_tasks (k # ks) tasks =
     add_keyword_tasks ks (if length tasks < 2 then tasks @ [the (map_of keywords_map k)] else tasks)"

fun fill_tasks :: "string list \<Rightarrow> string list \<Rightarrow> string list" where
  "fill_tasks [] tasks = tasks"
| "fill_tasks (t # ts) tasks =
     (if length tasks \<ge> 3 then tasks
      else fill_tasks ts (if t \<in> set tasks then tasks else tasks @ [t]))"

definition recommend_tasks :: "string \<Rightarrow> real \<Rightarrow> string list" where
  "recommend_tasks text sentiment_score =
     (let tasks = add_keyword_tasks (detected_keywords text) [];
          emotion_type = infer_simple_emotion sentiment_score
      in take 3 (fill_tasks (emotion_tasks emotion_type) tasks))"


subsection \<open>The two loops\<close>

lemma detected_keywords_in_map:
  "k \<in> set (detected_keywords t) \<Longrightarrow> map_of keywords_map k \<noteq> None"
  by (auto simp: detected_keywords_def dest: weak_map_of_SomeI)

lemma add_keyword_tasks_eq:
  "length tasks \<le> 2 \<Longrightarrow>
   add_keyword_tasks ks tasks = tasks @ take (2 - length tasks) (map (\<lambda>k. the (map_of keywords_map k)) ks)"
proof (induction ks arbitrary: tasks)
  case Nil
  then show ?case by simp
next
  case (Cons k ks)
  show ?case
  proof (cases "length tasks < 2")
    case True
    then have "2 - length tasks = Suc (Suc 0 - length tasks)" by arith
    with True Cons.IH[of "tasks @ [the (map_of keywords_map k)]"] show ?thesis
      by simp
  next
    case False
    with Cons.prems Cons.IH[of tasks] show ?thesis by simp
  qed
qed

lemma fill_tasks_eq:
  assumes "distinct ts" and "set ts \<inter> set tasks = {}"
  shows "fill_tasks ts tasks = tasks @ take (3 - length tasks) ts"
  using assms
proof (induction ts arbitrary: tasks)
  case Nil
  then show ?case by simp
next
  case (Cons t ts)
  show ?case
  proof (cases "length tasks \<ge> 3")
    case True
    then show ?thesis by simp
  next
    case False
    have "fill_tasks ts (tasks @ [t]) = tasks @ [t] @ take (3 - Suc (length tasks)) ts"
      using Cons.prems by (subst Cons.IH) auto
    moreover have "3 - length tasks = Suc (2 - length tasks)" using False by arith
    ultimately show ?thesis using False Cons.prems by simp
  qed
qed

lemma fill_tasks_distinct: "distinct tasks \<Longrightarrow> distinct (fill_tasks ts tasks)"
  by (induction ts tasks rule: fill_tasks.induct) auto

lemma keyword_tasks_from_map:
  "t \<in> set (take n (map (\<lambda>k. the (map_of keywords_map k)) (detected_keywords s))) \<Longrightarrow>
   t \<in> snd ` set keywords_map"
  by (auto dest!: in_set_takeD simp: detected_keywords_def)
     (metis (no_types, lifting) map_of_SomeD option.sel weak_map_of_SomeI image_iff snd_conv)

lemma recommend_tasks_eq:
  "recommend_tasks t s =
     (let kt = take 2 (map (\<lambda>k. the (map_of keywords_map k)) (detected_keywords t))
      in kt @ take (3 - length kt) (emotion_tasks (infer_simple_emotion s)))"
proof -
  let ?kt = "take 2 (map (\<lambda>k. the (map_of keywords_map k)) (detected_keywords t))"
  have disj: "set (emotion_tasks (infer_simple_emotion s)) \<inter> set ?kt = {}"
    using keyword_task_not_fallback keyword_tasks_from_map by blast
  have "fill_tasks (emotion_tasks (infer_simple_emotion s)) ?kt
          = ?kt @ take (3 - length ?kt) (emotion_tasks (infer_simple_emotion s))"
    by (rule fill_tasks_eq[OF emotion_tasks_distinct disj])
  moreover have "length ?kt \<le> 2" by simp
  ultimately show ?thesis
    by (simp add: recommend_tasks_def add_keyword_tasks_eq Let_def emotion_tasks_length)
qed

lemmas recommend_tasks_shape = recommend_tasks_eq Let_def emotion_tasks_length

subsection \<open>Properties of the task selection\<close>

text \<open>C5: The task list always has exactly three entries: at most two keyword tasks, then fallback tasks, which never coincide with a keyword task, until three are held.\<close>

lemma recommend_tasks_length: "length (recommend_tasks t s) = 3"
  by (simp add: recommend_tasks_shape)

text \<open>C6: The fallback loop adds no duplicate: whenever the keyword tasks are distinct, the whole task list is distinct.\<close>

lemma recommend_tasks_distinct:
  assumes "distinct (add_keyword_tasks (detected_keywords t) [])"
  shows "distinct (recommend_tasks t s)"
  using fill_tasks_distinct[OF assms] by (simp add: recommend_tasks_def Let_def)

lemma recommend_tasks_distinct_witness:
  "distinct (recommend_tasks ''tired and lonely'' 0.9)"
proof -
  have "distinct (add_keyword_tasks (detected_keywords ''tired and lonely'') [])" by code_simp
  then show ?thesis by (rule recommend_tasks_distinct)
qed

text \<open>Finding: the keyword loop does not deduplicate. 'i am stressed today' matches both 'stress' and 'stressed', which map to the same task, so the response lists 'Do 5 minutes of deep breathing' twice, although the specification promises a list without duplicates.\<close>

lemma recommend_tasks_repeats_task:
  "recommend_tasks ''i am stressed today'' 0 =
     [''Do 5 minutes of deep breathing'', ''Do 5 minutes of deep breathing'', ''Write one goal for today'']"
  by code_simp

text \<open>C17: When no key of the keyword map occurs in the text, the response is the three fallback tasks of the score's bucket, in list order.\<close>

lemma recommend_tasks_no_keywords:
  assumes "\<not> (\<exists>k \<in> fst ` set keywords_map. py_in k t)"
  shows "recommend_tasks t s = emotion_tasks (infer_simple_emotion s)"
proof -
  have "detected_keywords t = []"
    using assms by (auto simp: detected_keywords_def filter_empty_conv)
  then show ?thesis by (simp add: recommend_tasks_shape)
qed

lemma recommend_tasks_no_keywords_witness:
  "recommend_tasks ''a quiet day'' 0.9 = emotion_tasks Positive_type"
proof -
  have h: "\<not> (\<exists>k \<in> fst ` set keywords_map. py_in k ''a quiet day'')" by code_simp
  have b: "infer_simple_emotion 0.9 = Positive_type" by (simp add: infer_simple_emotion_def)
  show ?thesis using recommend_tasks_no_keywords[OF h, of "0.9"] b by simp
qed

text \<open>C18: When at least two keys of the keyword map occur in the text, the response is the tasks of the first two, in table order, followed by the first fallback task of the score's bucket.\<close>

lemma recommend_tasks_two_keywords:
  assumes "2 \<le> length (detected_keywords t)"
  shows "recommend_tasks t s =
           map (\<lambda>k. the (map_of keywords_map k)) (take 2 (detected_keywords t))
           @ [hd (emotion_tasks (infer_simple_emotion s))]"
proof -
  have "take (Suc 0) (emotion_tasks b) = [hd (emotion_tasks b)]" for b
    by (cases b) simp_all
  with assms show ?thesis by (simp add: recommend_tasks_eq take_map)
qed

lemma recommend_tasks_two_keywords_witness:
  "recommend_tasks ''tired and lonely'' (-0.7) =
     [''Take a 10-minute rest and drink water'', ''Call a friend for 5 minutes'',
      ''Do a 2-minute relaxation exercise'']"
proof -
  have h: "2 \<le> length (detected_keywords ''tired and lonely'')" by code_simp
  have d: "map (\<lambda>k. the (map_of keywords_map k)) (take 2 (detected_keywords ''tired and lonely''))
             = [''Take a 10-minute rest and drink water'', ''Call a friend for 5 minutes'']" by code_simp
  have b: "infer_simple_emotion (-0.7) = Negative_type" by (simp add: infer_simple_emotion_def)
  show ?thesis using recommend_tasks_two_keywords[OF h, of "-0.7"] d b by simp
qed

end
