(* ===== verification/Spec2Isabelle.thy ===== *)
theory Spec2Isabelle
  imports Stress Sentiment Emotion Keywords Tasks
begin

text \<open>
  \<^bold>\<open>A verified model of the inner-compass analysis server.\<close>

  The repository's only source file, src/server/main.py, is a FastAPI service
  with two endpoints over journal text. \<open>analyze\<close> checks the lower-cased
  text for crisis phrases and, if one occurs, returns a fixed crisis response
  without consulting the sentiment classifier; otherwise it calls the
  classifier on the first 512 characters, turns its answer into a signed
  score, and computes a stress level (\<open>compute_stress\<close>), an emotion label
  (\<open>infer_emotion\<close>) and a keyword list. \<open>generate_tasks\<close> calls the
  classifier on the lower-cased text and picks three coping tasks from
  keyword and fallback tables. All data that outlives a request is constant
  (the keyword tables); each request is a pure function of its text and the
  classifier's answer.

  \<^bold>\<open>Theories and what they model.\<close>
  \<^item> \<open>Prelude\<close>: the collection \<open>table_defs\<close> of table definitions,
    type names, and generic lemmas on filtered sums over
    association lists used by the keyword scoring.
  \<^item> \<open>PyBuiltins\<close>: the Python built-ins the code relies on, as CPython
    computes them on code points below 256 (a HOL \<open>char\<close> read as Latin-1):
    \<open>str.lower\<close> (\<open>py_lower\<close>), the substring test \<open>k in text\<close>
    (\<open>py_in\<close>), \<open>str.split()\<close> (\<open>py_split\<close>), \<open>str.strip(chars)\<close>
    (\<open>py_strip\<close>), \<open>list(dict.fromkeys(xs))\<close> (\<open>py_dict_fromkeys\<close>) and
    \<open>int()\<close> of a float (\<open>py_int\<close>, truncation towards zero).
  \<^item> \<open>Tables\<close>: \<open>STRESS_KEYWORDS\<close> (lines 22--27), the crisis phrases
    (line 86), \<open>keywords_map\<close> (lines 138--154) and the fallback bank
    \<open>emotion_tasks\<close> (lines 165--181), as association lists in dict order.
  \<^item> \<open>Sentiment\<close>: the classifier answer as a record and the normaliser
    \<open>sentiment_score\<close> (lines 97 and 135).
  \<^item> \<open>Stress\<close>: \<open>compute_stress\<close> (lines 33--54) with its keyword sum
    \<open>raw_hits\<close> and polarity branch \<open>stress_branch\<close>.
  \<^item> \<open>Emotion\<close>: \<open>infer_emotion\<close> (lines 60--75) over a datatype of the
    six labels.
  \<^item> \<open>Keywords\<close>: the keyword list of \<open>analyze\<close> (lines 105--116).
  \<^item> \<open>Tasks\<close>: the task selection of \<open>generate_tasks\<close> (lines
    137--201): \<open>detected_keywords\<close>, the keyword loop
    \<open>add_keyword_tasks\<close>, \<open>infer_simple_emotion\<close>, the fallback loop
    \<open>fill_tasks\<close> and \<open>recommend_tasks\<close>.
  \<^item> This theory: the endpoints \<open>analyze\<close> (lines 81--123) and
    \<open>generate_tasks\<close> (lines 129--201) over a classifier parameter of type
    \<open>string \<Rightarrow> sentiment_result list option\<close>, with the crisis test
    \<open>is_crisis\<close>, the fixed \<open>crisis_result\<close>, and \<open>classify\<close> for the
    call \<open>sentiment_analyzer(...)[0]\<close>, whose two failures (the call raises,
    or returns an empty list) are the values of \<open>error\<close>.

  \<^bold>\<open>What is proved.\<close> Safety of the crisis override (the fixed response
  exactly for texts with a crisis phrase, whatever the classifier does) and
  the invariant of every analysis response (stress in 0..100, at most five
  distinct keywords, the critical label only for crisis texts, a score in
  [-1, 1] for a conforming classifier); the clamp, monotonicity in the score,
  the effect of keyword hits in each polarity branch and the range without
  keywords for \<open>compute_stress\<close>; the precedence, case insensitivity and
  exact conditions of the emotion labels; bounds, order and case of the
  keyword list; the exact length and shape of the task list; the error
  results of both endpoints and their dependence on the 512-character prefix
  only. The lemmas about the built-ins in \<open>PyBuiltins\<close> serve these
  proofs. The specification's worked examples and the findings below are
  closed lemmas evaluated by the kernel (\<open>code_simp\<close>).

  \<^bold>\<open>Findings.\<close> The task list can repeat a task (two keywords mapping to
  one task), contrary to the specification; the crisis test fires on words
  such as "studied" that contain "die"; keyword hits lower stress when the
  sentiment is positive; general keywords are always lower case, unlike the
  specification's description; the length filter precedes stripping, so a
  keyword can be short or empty; \<open>generate_tasks\<close> answers crisis texts
  with ordinary tasks.

  \<^bold>\<open>Not modelled.\<close> The transformers sentiment model (an arbitrary
  classifier function stands for it, so every theorem holds for every
  classifier answer), FastAPI routing, request validation and JSON
  serialisation. Python floats are exact reals: the thresholds and the
  truncation are modelled exactly, binary rounding of products such as
  \<open>0.95 * 35\<close> is not. Characters are Latin-1 code points; \<open>str.lower\<close>
  and \<open>str.isspace\<close> beyond U+00FF are not modelled. There are no loops that
  may fail to terminate: every loop of the code runs over a finite list and is
  structural recursion here, so no fuel is needed.
\<close>

section \<open>The endpoints\<close>

text \<open>
  The two FastAPI endpoints of src/server/main.py, \<open>analyze\<close> (lines
  81--123) and \<open>generate_tasks\<close> (lines 129--201), over the external
  sentiment classifier taken as a parameter: a function from its input string
  to the list of results the transformers pipeline returns, or \<open>None\<close> when
  the call raises. The code takes the first result with \<open>[0]\<close>, which
  raises IndexError on an empty list; both failures are values of
  \<open>error\<close> and the endpoint returns them, as the exception would propagate.
  A request with a given text and a given classifier answer is a pure
  function: there is no state across requests. The response dict is a
  record whose fields carry the JSON keys (\<open>keywords\<close> is a keyword of
  Isar, so that field is \<open>keyword_list\<close>).
\<close>

datatype error = ClassifierFailure | IndexError

type_synonym classifier = "string \<Rightarrow> sentiment_result list option"

record analysis_result =
  sentimentScore :: real
  stressLevel :: int
  emotion :: emotion
  keyword_list :: "string list"

definition is_crisis :: "string \<Rightarrow> bool" where
  "is_crisis text = list_ex (\<lambda>w. py_in w text) crisis_words"

definition crisis_result :: analysis_result where
  "crisis_result =
     \<lparr>sentimentScore = -1.0, stressLevel = 100, emotion = Critical,
      keyword_list = [''crisis'', ''immediate support required'']\<rparr>"

definition classify :: "classifier \<Rightarrow> string \<Rightarrow> error + sentiment_result" where
  "classify sentiment_analyzer s =
     (case sentiment_analyzer s of
        None \<Rightarrow> Inl ClassifierFailure
      | Some [] \<Rightarrow> Inl IndexError
      | Some (res # _) \<Rightarrow> Inr res)"

definition analyze :: "classifier \<Rightarrow> string \<Rightarrow> error + analysis_result" where
  "analyze sentiment_analyzer journal_text =
     (let text = py_lower journal_text in
      if is_crisis text then Inr crisis_result
      else
        (case classify sentiment_analyzer (take 512 journal_text) of
           Inl e \<Rightarrow> Inl e
         | Inr res \<Rightarrow>
             (let s = sentiment_score res;
                  stress = compute_stress journal_text s;
                  emo = infer_emotion s journal_text;
                  kws = extract_keywords text
              in Inr \<lparr>sentimentScore = s, stressLevel = stress, emotion = emo, keyword_list = kws\<rparr>)))"

definition generate_tasks :: "classifier \<Rightarrow> string \<Rightarrow> error + string list" where
  "generate_tasks sentiment_analyzer journal_text =
     (let text = py_lower journal_text in
      case classify sentiment_analyzer (take 512 text) of
        Inl e \<Rightarrow> Inl e
      | Inr res \<Rightarrow> Inr (recommend_tasks text (sentiment_score res)))"


subsection \<open>Branches of the endpoints\<close>

lemma analyze_crisis:
  "is_crisis (py_lower t) \<Longrightarrow> analyze clf t = Inr crisis_result"
  by (simp add: analyze_def)

lemma analyze_no_crisis:
  "\<not> is_crisis (py_lower t) \<Longrightarrow>
   analyze clf t =
     (case classify clf (take 512 t) of
        Inl e \<Rightarrow> Inl e
      | Inr res \<Rightarrow>
          Inr \<lparr>sentimentScore = sentiment_score res,
               stressLevel = compute_stress t (sentiment_score res),
               emotion = infer_emotion (sentiment_score res) t,
               keyword_list = extract_keywords (py_lower t)\<rparr>)"
  by (simp add: analyze_def Let_def split: sum.split)

lemma analyze_InrE:
  assumes "analyze clf t = Inr r"
  obtains (crisis) "is_crisis (py_lower t)" "r = crisis_result"
  | (scored) res where "\<not> is_crisis (py_lower t)" "classify clf (take 512 t) = Inr res"
      "r = \<lparr>sentimentScore = sentiment_score res,
            stressLevel = compute_stress t (sentiment_score res),
            emotion = infer_emotion (sentiment_score res) t,
            keyword_list = extract_keywords (py_lower t)\<rparr>"
  using assms by (cases "is_crisis (py_lower t)")
    (auto simp: analyze_crisis analyze_no_crisis split: sum.splits)

section \<open>Properties of the endpoints\<close>

text \<open>C1: For every classifier (including one that fails), analyze returns the fixed crisis response exactly when the lower-cased text contains a crisis phrase: the override wins over all other content, the classifier's answer plays no part in it, and no other input produces that response.\<close>

lemma analyze_crisis_iff: "analyze clf t = Inr crisis_result \<longleftrightarrow> is_crisis (py_lower t)"
proof
  assume "analyze clf t = Inr crisis_result"
  then show "is_crisis (py_lower t)"
  proof (cases rule: analyze_InrE)
    case (scored res)
    then have "infer_emotion (sentiment_score res) t = Critical"
      by (simp add: crisis_result_def)
    then show ?thesis by simp
  qed
qed (rule analyze_crisis)

text \<open>C7: Every successful analyze response has a stress level in 0..100, at most five distinct keywords, and the critical emotion exactly when the text contains a crisis phrase.\<close>

lemma analyze_result_invariant:
  assumes "analyze clf t = Inr r"
  shows "0 \<le> stressLevel r \<and> stressLevel r \<le> 100
         \<and> length (keyword_list r) \<le> 5 \<and> distinct (keyword_list r)
         \<and> (emotion r = Critical \<longleftrightarrow> is_crisis (py_lower t))"
  using assms
proof (cases rule: analyze_InrE)
  case crisis
  then show ?thesis by (simp add: crisis_result_def)
next
  case (scored res)
  then show ?thesis by (simp add: compute_stress_eq extract_keywords_def)
qed

lemma analyze_result_invariant_witness:
  "stressLevel (projr (analyze (\<lambda>_. Some [\<lparr>label = ''POSITIVE'', score = 0.95\<rparr>]) ''I am so happy and grateful today'')) = 16
   \<and> 0 \<le> stressLevel (projr (analyze (\<lambda>_. Some [\<lparr>label = ''POSITIVE'', score = 0.95\<rparr>]) ''I am so happy and grateful today''))"
proof -
  let ?clf = "\<lambda>_::string. Some [\<lparr>label = ''POSITIVE'', score = (0.95::real)\<rparr>]"
  let ?t = "''I am so happy and grateful today''"
  have r: "analyze ?clf ?t = Inr \<lparr>sentimentScore = 0.95, stressLevel = 16, emotion = Happy,
             keyword_list = [''happy'', ''grateful'', ''today'']\<rparr>" by code_simp
  show ?thesis using analyze_result_invariant[OF r] r by simp
qed

text \<open>C19: For a text without a crisis phrase, analyze fails with ClassifierFailure exactly when the classifier call fails, and with IndexError exactly when the classifier returns an empty result list.\<close>

lemma analyze_classifier_errors:
  assumes "\<not> is_crisis (py_lower t)"
  shows "(analyze clf t = Inl ClassifierFailure \<longleftrightarrow> clf (take 512 t) = None)
         \<and> (analyze clf t = Inl IndexError \<longleftrightarrow> clf (take 512 t) = Some [])"
  using assms
  by (auto simp: analyze_no_crisis classify_def split: option.splits list.splits sum.splits)

lemma analyze_classifier_errors_witness:
  "analyze (\<lambda>_. None) ''hello'' = Inl ClassifierFailure
   \<and> analyze (\<lambda>_. Some []) ''hello'' = Inl IndexError"
proof -
  have h: "\<not> is_crisis (py_lower ''hello'')" by code_simp
  show ?thesis
    using analyze_classifier_errors[OF h, of "\<lambda>_. None"] analyze_classifier_errors[OF h, of "\<lambda>_. Some []"]
    by simp
qed

text \<open>C20: analyze consults the classifier on the first 512 characters of the original-case text only: two classifiers that agree on that prefix give the same response.\<close>

lemma analyze_classifier_sees_prefix:
  assumes "clf1 (take 512 t) = clf2 (take 512 t)"
  shows "analyze clf1 t = analyze clf2 t"
  using assms by (simp add: analyze_def classify_def Let_def)

lemma analyze_classifier_sees_prefix_witness:
  "analyze (\<lambda>s. if length s \<le> 512 then None else Some []) (replicate 600 (CHR ''a''))
   = analyze (\<lambda>_. None) (replicate 600 (CHR ''a''))"
  by (rule analyze_classifier_sees_prefix) simp

text \<open>The example of section 8 of the specification, evaluated end to end: with a classifier answering NEGATIVE 0.9, 'I feel so stressed and anxious about work' gives score -0.9, stress 100, emotion anxious and the keywords stress, stressed, anxious, about.\<close>

lemma analyze_spec_example:
  "analyze (\<lambda>_. Some [\<lparr>label = ''NEGATIVE'', score = 0.9\<rparr>]) ''I feel so stressed and anxious about work''
   = Inr \<lparr>sentimentScore = -0.9, stressLevel = 100, emotion = Anxious,
          keyword_list = [''stress'', ''stressed'', ''anxious'', ''about'']\<rparr>"
  by code_simp

text \<open>Finding: the crisis test is a substring test, so 'I studied all night', which contains 'die', gets the crisis response from analyze, whatever the classifier.\<close>

lemma crisis_substring_false_positive:
  "analyze clf ''I studied all night'' = Inr crisis_result"
proof -
  have "is_crisis (py_lower ''I studied all night'')" by code_simp
  then show ?thesis by (rule analyze_crisis)
qed

text \<open>Finding: generate_tasks runs no crisis check, so a text containing 'end my life' gets the ordinary negative-bucket fallback tasks.\<close>

lemma generate_tasks_skips_crisis_check:
  "is_crisis (py_lower ''I want to end my life'')
   \<and> generate_tasks (\<lambda>_. Some [\<lparr>label = ''NEGATIVE'', score = 0.99\<rparr>]) ''I want to end my life''
     = Inr [''Do a 2-minute relaxation exercise'', ''Drink a glass of water slowly'',
            ''Write one kind sentence to yourself'']"
  by code_simp

text \<open>C21: generate_tasks fails with ClassifierFailure exactly when the classifier call on the lower-cased 512-character prefix fails, and with IndexError exactly when it returns no result.\<close>

lemma generate_tasks_classifier_errors:
  "(generate_tasks clf t = Inl ClassifierFailure \<longleftrightarrow> clf (take 512 (py_lower t)) = None)
   \<and> (generate_tasks clf t = Inl IndexError \<longleftrightarrow> clf (take 512 (py_lower t)) = Some [])"
  by (auto simp: generate_tasks_def classify_def Let_def split: option.splits list.splits sum.splits)

text \<open>C25: When every result the classifier returns has a confidence in [0, 1], the sentimentScore of every analyze response lies in [-1, 1] (the crisis response has -1).\<close>

lemma analyze_sentiment_range:
  assumes "analyze clf t = Inr r"
    and "\<And>rs res. clf (take 512 t) = Some rs \<Longrightarrow> res \<in> set rs \<Longrightarrow> 0 \<le> score res \<and> score res \<le> 1"
  shows "-1 \<le> sentimentScore r \<and> sentimentScore r \<le> 1"
  using assms(1)
proof (cases rule: analyze_InrE)
  case crisis
  then show ?thesis by (simp add: crisis_result_def)
next
  case (scored res)
  then obtain rs where "clf (take 512 t) = Some (res # rs)"
    by (auto simp: classify_def split: option.splits list.splits)
  with assms(2) have "0 \<le> score res \<and> score res \<le> 1" by auto
  with scored show ?thesis by (simp add: sentiment_score_def)
qed

lemma analyze_sentiment_range_witness:
  "sentimentScore (projr (analyze (\<lambda>_. Some [\<lparr>label = ''NEGATIVE'', score = 0.9\<rparr>]) ''a long day''))
     \<ge> -1"
proof -
  let ?clf = "\<lambda>_::string. Some [\<lparr>label = ''NEGATIVE'', score = (0.9::real)\<rparr>]"
  have r: "analyze ?clf ''a long day'' = Inr (projr (analyze ?clf ''a long day''))" by code_simp
  have c: "\<And>rs res. ?clf (take 512 ''a long day'') = Some rs \<Longrightarrow> res \<in> set rs \<Longrightarrow> 0 \<le> score res \<and> score res \<le> 1"
    by auto
  show ?thesis using analyze_sentiment_range[OF r c] by simp
qed

end
